theory Spec2Isabelle
  imports Complex_Main "HOL-Library.Word"
begin

section \<open>The upload page: image preparation and question submission\<close>

text \<open>
  The development embeds the script block of \<^verbatim>\<open>src/routes/+page.svelte\<close>: the function
  \<^verbatim>\<open>resizeImage\<close>, which bounds an uploaded picture by 800 x 800 pixels and re-encodes
  it, and the function \<^verbatim>\<open>submitForm\<close>, which posts the picture and a question to
  \<^verbatim>\<open>/api/ask\<close> and stores the answer.
\<close>

subsection \<open>Target dimensions\<close>

definition MAX_WIDTH :: nat where
  "MAX_WIDTH = 800"

definition MAX_HEIGHT :: nat where
  "MAX_HEIGHT = 800"

text \<open>
  \<^verbatim>\<open>Math.round\<close> yields the integer nearest to its argument, the larger one on a tie,
  that is the floor of the argument plus one half. The argument is the quotient of two
  pixel counts. The quotient is taken exactly, over the rationals: pixel counts are
  unsigned 32-bit values, a product with 800 stays far below \<open>2 ^ 52\<close>, and at that size
  the correctly rounded double of a quotient lies on the same side of every half-integer
  as the quotient itself.
\<close>

definition Math_round :: "rat \<Rightarrow> int" where
  "Math_round x = \<lfloor>x + 1 / 2\<rfloor>"

definition js_quot :: "nat \<Rightarrow> nat \<Rightarrow> rat" where
  "js_quot a b = rat_of_nat a / rat_of_nat b"

text \<open>
  Lines 21 to 34 of the source: \<open>width\<close> and \<open>height\<close> start as the intrinsic
  dimensions of the decoded picture and end as the dimensions given to the canvas. Each
  division sits under a guard that makes its divisor exceed the bound, so no division by
  zero is ever evaluated.
\<close>

fun resize_dims :: "nat \<times> nat \<Rightarrow> nat \<times> nat" where
  "resize_dims (width, height) =
     (if width > height then
        (if width > MAX_WIDTH
         then (MAX_WIDTH, nat (Math_round (js_quot (height * MAX_WIDTH) width)))
         else (width, height))
      else
        (if height > MAX_HEIGHT
         then (nat (Math_round (js_quot (width * MAX_HEIGHT) height)), MAX_HEIGHT)
         else (width, height)))"

subsection \<open>Files, the browser and \<^verbatim>\<open>resizeImage\<close>\<close>

type_synonym byte = "8 word"

record blob =
  blob_bytes :: "byte list"
  blob_type :: string

record jsfile =
  file_bytes :: "byte list"
  file_name :: string
  file_type :: string

datatype js_error = TypeError | SyntaxError | NetworkError

text \<open>The three conditions of a promise; a promise that never settles stays \<open>Pending\<close>.\<close>

datatype 'a promise = Pending | Rejected js_error | Fulfilled 'a

text \<open>
  What the page asks of the browser while preparing a picture. \<open>img_load\<close> is the
  decoding started by setting \<^verbatim>\<open>img.src\<close>: the intrinsic width and height when the
  \<^verbatim>\<open>load\<close> event fires, \<open>None\<close> when it does not (the page registers no
  \<^verbatim>\<open>error\<close> handler). \<open>getContext\<close> tells whether a canvas of the given size
  hands out a 2d context or \<^verbatim>\<open>null\<close>. \<open>toBlob\<close> is the encoder: the picture drawn
  at the given size, encoded for the requested media type, or \<^verbatim>\<open>null\<close>.
\<close>

record browser =
  img_load :: "jsfile \<Rightarrow> (nat \<times> nat) option"
  getContext :: "nat \<times> nat \<Rightarrow> bool"
  toBlob :: "jsfile \<Rightarrow> nat \<times> nat \<Rightarrow> string \<Rightarrow> blob option"

text \<open>\<^verbatim>\<open>new File([blob], name, { type })\<close>\<close>

definition new_File :: "blob list \<Rightarrow> string \<Rightarrow> string \<Rightarrow> jsfile" where
  "new_File parts n t =
     \<lparr>file_bytes = concat (map blob_bytes parts), file_name = n, file_type = t\<rparr>"

text \<open>
  The \<^verbatim>\<open>onload\<close> handler, lines 18 to 46. \<open>Inl\<close> is an exception that leaves the
  handler (calling \<^verbatim>\<open>drawImage\<close> on a \<^verbatim>\<open>null\<close> context); \<open>Inr None\<close> is a run
  that ends without calling \<^verbatim>\<open>resolve\<close> (the encoder passed \<^verbatim>\<open>null\<close>);
  \<open>Inr (Some f)\<close> is \<^verbatim>\<open>resolve(f)\<close>.
\<close>

definition onload :: "browser \<Rightarrow> jsfile \<Rightarrow> nat \<times> nat \<Rightarrow> js_error + jsfile option" where
  "onload b file dims =
     (let canvas = resize_dims dims in
      if \<not> getContext b canvas then Inl TypeError
      else (case toBlob b file canvas (file_type file) of
              None \<Rightarrow> Inr None
            | Some blob \<Rightarrow> Inr (Some (new_File [blob] (file_name file) (file_type file)))))"

text \<open>
  \<^verbatim>\<open>resizeImage\<close>, lines 13 to 48. The executor takes \<^verbatim>\<open>resolve\<close> only, and an
  exception inside an event handler does not reach the promise, so the promise settles
  only through the call of \<^verbatim>\<open>resolve\<close>.
\<close>

definition resizeImage :: "browser \<Rightarrow> jsfile \<Rightarrow> jsfile promise" where
  "resizeImage b file =
     (case img_load b file of
        None \<Rightarrow> Pending
      | Some dims \<Rightarrow>
          (case onload b file dims of
             Inl e \<Rightarrow> Pending
           | Inr None \<Rightarrow> Pending
           | Inr (Some out) \<Rightarrow> Fulfilled out))"

subsection \<open>Page state and \<^verbatim>\<open>submitForm\<close>\<close>

text \<open>
  A parsed response body. The members of an object are kept in the order of the text; on
  a repeated key the parser keeps the last member.
\<close>

datatype json =
    JNull
  | JBool bool
  | JNum rat
  | JStr string
  | JArr "json list"
  | JObj "(string \<times> json) list"

datatype jsval = Undefined | Json json

text \<open>The six variables of the script block, lines 3 to 8.\<close>

record state =
  image :: "jsfile option"
  imageUrl :: "string option"
  question :: string
  isDragging :: bool
  description :: jsval
  isLoading :: bool

datatype form_value = FormFile jsfile | FormText string

record request =
  url :: string
  http_method :: string
  body :: "(string \<times> form_value) list"

text \<open>
  A response as \<^verbatim>\<open>submitForm\<close> uses it: \<open>resp_json\<close> is the promise returned by
  \<^verbatim>\<open>response.json()\<close>, rejected when the body is not JSON text. The status is
  carried along; the function never reads it.
\<close>

record response =
  resp_status :: nat
  resp_json :: "json promise"

datatype effect = Alert string | Fetch request | ConsoleError string js_error

text \<open>
  One run of \<^verbatim>\<open>submitForm\<close> with no other handler in between: what it did to the
  outside, the state in which it suspended at its first \<^verbatim>\<open>await\<close> (if it got there),
  and the state in which it returned (\<open>None\<close> when an awaited promise never settles).
\<close>

record run =
  effects :: "effect list"
  at_await :: "state option"
  final :: "state option"

definition validation_message :: string where
  "validation_message = ''Please upload an image and ask a question.''"

definition error_message :: string where
  "error_message = ''An error occurred while processing your request.''"

text \<open>
  \<^verbatim>\<open>result.description\<close>: reading a property of \<^verbatim>\<open>null\<close> throws, an object yields
  the member or \<^verbatim>\<open>undefined\<close>, and every other JSON value has no such property.
\<close>

fun read_description :: "json \<Rightarrow> js_error + jsval" where
  "read_description JNull = Inl TypeError"
| "read_description (JObj members) =
     Inr (case map_of (rev members) ''description'' of
            None \<Rightarrow> Undefined
          | Some v \<Rightarrow> Json v)"
| "read_description _ = Inr Undefined"

text \<open>
  The body of the \<^verbatim>\<open>try\<close> block from the result of \<^verbatim>\<open>fetch\<close> on, lines 98 to
  106: \<open>None\<close> when one of the two awaited promises never settles, \<open>Inl\<close> the exception
  that reaches \<^verbatim>\<open>catch\<close>, \<open>Inr\<close> the value assigned to \<^verbatim>\<open>description\<close>.
\<close>

definition try_block :: "response promise \<Rightarrow> (js_error + jsval) option" where
  "try_block r =
     (case r of
        Pending \<Rightarrow> None
      | Rejected e \<Rightarrow> Some (Inl e)
      | Fulfilled resp \<Rightarrow>
          (case resp_json resp of
             Pending \<Rightarrow> None
           | Rejected e \<Rightarrow> Some (Inl e)
           | Fulfilled result \<Rightarrow> Some (read_description result)))"

text \<open>The assignments after the last \<^verbatim>\<open>await\<close>, with \<^verbatim>\<open>catch\<close> and \<^verbatim>\<open>finally\<close>.\<close>

definition submit_settle :: "js_error + jsval \<Rightarrow> state \<Rightarrow> state \<times> effect list" where
  "submit_settle outcome s =
     (case outcome of
        Inr v \<Rightarrow> (s\<lparr>description := v, isLoading := False\<rparr>, [])
      | Inl e \<Rightarrow>
          (s\<lparr>description := Json (JStr error_message), isLoading := False\<rparr>,
           [ConsoleError ''Error submitting form:'' e]))"

definition ask_request :: "jsfile \<Rightarrow> string \<Rightarrow> request" where
  "ask_request img q =
     \<lparr>url = ''/api/ask'', http_method = ''POST'',
      body = [(''image'', FormFile img), (''question'', FormText q)]\<rparr>"

definition invalid_run :: "state \<Rightarrow> run" where
  "invalid_run s = \<lparr>effects = [Alert validation_message], at_await = None, final = Some s\<rparr>"

text \<open>
  \<^verbatim>\<open>submitForm\<close>, lines 85 to 113. \<^verbatim>\<open>!image || !question\<close> holds when the image
  is \<^verbatim>\<open>null\<close> or the question is the empty string.
\<close>

definition submitForm :: "(request \<Rightarrow> response promise) \<Rightarrow> state \<Rightarrow> run" where
  "submitForm fetch s =
     (case image s of
        None \<Rightarrow> invalid_run s
      | Some img \<Rightarrow>
          if question s = [] then invalid_run s
          else
            (let s1 = s\<lparr>isLoading := True\<rparr>;
                 req = ask_request img (question s)
             in case try_block (fetch req) of
                  None \<Rightarrow> \<lparr>effects = [Fetch req], at_await = Some s1, final = None\<rparr>
                | Some outcome \<Rightarrow>
                    (let (s2, es) = submit_settle outcome s1
                     in \<lparr>effects = Fetch req # es, at_await = Some s1, final = Some s2\<rparr>)))"

subsection \<open>Sample inputs\<close>

definition cat_file :: jsfile where
  "cat_file = \<lparr>file_bytes = [1, 2, 3], file_name = ''cat.png'', file_type = ''image/png''\<rparr>"

definition png_browser :: browser where
  "png_browser =
     \<lparr>img_load = (\<lambda>f. Some (1600, 1200)),
      getContext = (\<lambda>d. True),
      toBlob = (\<lambda>f d t. Some \<lparr>blob_bytes = [7, 7], blob_type = ''image/png''\<rparr>)\<rparr>"


definition broken_browser :: browser where
  "broken_browser =
     \<lparr>img_load = (\<lambda>f. None),
      getContext = (\<lambda>d. True),
      toBlob = (\<lambda>f d t. None)\<rparr>"

definition ready_state :: state where
  "ready_state =
     \<lparr>image = Some cat_file, imageUrl = Some ''blob:1'', question = ''what is this?'',
      isDragging = False, description = Json JNull, isLoading = False\<rparr>"

definition no_question_state :: state where
  "no_question_state = ready_state\<lparr>question := []\<rparr>"

definition cat_fetch :: "request \<Rightarrow> response promise" where
  "cat_fetch req =
     Fulfilled \<lparr>resp_status = 200,
                resp_json = Fulfilled (JObj [(''description'', JStr ''a cat'')])\<rparr>"

definition offline_fetch :: "request \<Rightarrow> response promise" where
  "offline_fetch req = Rejected NetworkError"

definition failing_fetch :: "request \<Rightarrow> response promise" where
  "failing_fetch req =
     Fulfilled \<lparr>resp_status = 500,
                resp_json = Fulfilled (JObj [(''error'', JStr ''model unavailable'')])\<rparr>"

subsection \<open>Rounding a quotient of pixel counts\<close>

lemma Math_round_quot:
  assumes "0 < b"
  shows "Math_round (js_quot a b) = (2 * int a + int b) div (2 * int b)"
proof -
  have "js_quot a b + 1 / 2 = of_int (2 * int a + int b) / of_int (2 * int b)"
    using assms by (simp add: js_quot_def field_simps)
  then have "Math_round (js_quot a b)
      = \<lfloor>(of_int (2 * int a + int b) / of_int (2 * int b) :: rat)\<rfloor>"
    by (simp add: Math_round_def)
  also have "\<dots> = (2 * int a + int b) div (2 * int b)"
    by (rule floor_divide_of_int_eq)
  finally show ?thesis .
qed

lemma nat_Math_round_quot:
  assumes "0 < b"
  shows "nat (Math_round (js_quot a b)) = (2 * a + b) div (2 * b)"
proof -
  have "(2 * int a + int b) div (2 * int b) = int ((2 * a + b) div (2 * b))"
    by (simp add: zdiv_int)
  then show ?thesis
    using assms by (simp add: Math_round_quot)
qed

lemma round_real_quot:
  assumes "0 < b"
  shows "round (real a / real b) = (2 * int a + int b) div (2 * int b)"
proof -
  have "real a / real b + 1 / 2 = of_int (2 * int a + int b) / of_int (2 * int b)"
    using assms by (simp add: field_simps)
  then have "round (real a / real b)
      = \<lfloor>(of_int (2 * int a + int b) / of_int (2 * int b) :: real)\<rfloor>"
    by (simp add: round_def)
  also have "\<dots> = (2 * int a + int b) div (2 * int b)"
    by (rule floor_divide_of_int_eq)
  finally show ?thesis .
qed

lemma nat_round_real_quot:
  assumes "0 < b"
  shows "nat (round (real a / real b)) = nat (Math_round (js_quot a b))"
  using assms by (simp add: round_real_quot Math_round_quot)


lemma rounded_quot_self:
  fixes b m :: nat
  assumes "0 < b"
  shows "(2 * (b * m) + b) div (2 * b) = m"
proof -
  have "2 * (b * m) + b = b + m * (2 * b)"
    by (simp add: mult.commute mult.left_commute)
  then have "(2 * (b * m) + b) div (2 * b) = b div (2 * b) + m"
    using assms by (simp only: div_mult_self3) simp
  then show ?thesis
    using assms by simp
qed

subsection \<open>The dimensions given to the canvas\<close>

lemma resize_dims_wide:
  assumes "height < width" and "800 < width"
  shows "resize_dims (width, height) = (800, (2 * (height * 800) + width) div (2 * width))"
  using assms by (simp add: MAX_WIDTH_def nat_Math_round_quot)

lemma resize_dims_tall:
  assumes "width \<le> height" and "800 < height"
  shows "resize_dims (width, height) = ((2 * (width * 800) + height) div (2 * height), 800)"
  using assms by (simp add: MAX_HEIGHT_def nat_Math_round_quot)

lemma resize_dims_small:
  assumes "width \<le> 800" and "height \<le> 800"
  shows "resize_dims (width, height) = (width, height)"
  using assms by (simp add: MAX_WIDTH_def MAX_HEIGHT_def)

lemma nat_round_real_div:
  assumes "0 < b"
  shows "nat (round (real a * 800 / real b)) = (2 * (a * 800) + b) div (2 * b)"
proof -
  have "real a * 800 / real b = real (a * 800) / real b"
    by simp
  then have "nat (round (real a * 800 / real b)) = nat (Math_round (js_quot (a * 800) b))"
    using assms by (simp only: nat_round_real_quot)
  then show ?thesis
    using assms by (simp only: nat_Math_round_quot)
qed

text \<open>
  Claim C1. A picture at least as wide as it is high and wider than 800 pixels gets width
  800 and height \<open>round (height * 800 / width)\<close>; a picture higher than wide and
  higher than 800 pixels gets height 800 and width \<open>round (width * 800 / height)\<close>.
  Here \<open>round\<close> is rounding of a real number to the nearest integer. A square picture
  wider than 800 pixels takes the second branch of the source, and both formulas give
  800 there.
\<close>

theorem resize_dims_scaled:
  "(height \<le> width \<and> 800 < width \<longrightarrow>
      resize_dims (width, height) = (800, nat (round (real height * 800 / real width))))
   \<and> (width < height \<and> 800 < height \<longrightarrow>
      resize_dims (width, height) = (nat (round (real width * 800 / real height)), 800))"
proof (intro conjI impI)
  assume a: "height \<le> width \<and> 800 < width"
  then have pos: "0 < width" by simp
  show "resize_dims (width, height) = (800, nat (round (real height * 800 / real width)))"
  proof (cases "height < width")
    case True
    with a show ?thesis
      by (simp only: resize_dims_wide nat_round_real_div [OF pos])
  next
    case False
    with a have eq: "height = width" by simp
    have "resize_dims (width, width) = ((2 * (width * 800) + width) div (2 * width), 800)"
      using a by (intro resize_dims_tall) simp_all
    moreover have "(2 * (width * 800) + width) div (2 * width) = 800"
      using pos by (rule rounded_quot_self)
    moreover have "nat (round (real width * 800 / real width)) = 800"
      using pos by simp
    ultimately show ?thesis
      using eq by simp
  qed
next
  assume a: "width < height \<and> 800 < height"
  then have pos: "0 < height" by simp
  from a show "resize_dims (width, height) = (nat (round (real width * 800 / real height)), 800)"
    by (simp only: resize_dims_tall nat_round_real_div [OF pos] less_imp_le)
qed

theorem resize_dims_scaled_witness:
  "((1200::nat) \<le> 1600 \<and> (800::nat) < 1600 \<and> resize_dims (1600, 1200) = (800, 600))
   \<and> ((1200::nat) < 1600 \<and> (800::nat) < 1600 \<and> resize_dims (1200, 1600) = (600, 800))"
  using resize_dims_scaled [of 1200 1600] resize_dims_scaled [of 1600 1200]
  by simp

text \<open>
  Claim C2. A picture with both dimensions at most 800 keeps its dimensions, so nothing is
  ever scaled up, and running the computation again any number of times on the result
  changes nothing.
\<close>

theorem resize_dims_bounded_fixed:
  assumes "width \<le> 800" and "height \<le> 800"
  shows "resize_dims (width, height) = (width, height)
     \<and> (\<forall>n. (resize_dims ^^ n) (width, height) = (width, height))"
proof
  show one: "resize_dims (width, height) = (width, height)"
    using assms by (rule resize_dims_small)
  show "\<forall>n. (resize_dims ^^ n) (width, height) = (width, height)"
  proof
    fix n
    show "(resize_dims ^^ n) (width, height) = (width, height)"
      by (induction n) (simp_all add: one del: resize_dims.simps)
  qed
qed

theorem resize_dims_bounded_fixed_witness:
  "(500::nat) \<le> 800 \<and> (300::nat) \<le> 800 \<and> resize_dims (500, 300) = (500, 300)
     \<and> (resize_dims ^^ 3) (500, 300) = (500, 300)"
  using resize_dims_bounded_fixed [of 500 300] by simp


subsection \<open>The file resolved by \<^verbatim>\<open>resizeImage\<close>\<close>

lemma onload_name_type:
  assumes "onload b file dims = Inr (Some out)"
  shows "file_name out = file_name file \<and> file_type out = file_type file"
  using assms
  by (auto simp: onload_def new_File_def Let_def split: if_splits option.splits)

lemma resizeImage_cases:
  "resizeImage b file = Pending \<or> (\<exists>out. resizeImage b file = Fulfilled out)"
  by (simp add: resizeImage_def split: option.splits sum.splits)

lemma resizeImage_Fulfilled:
  assumes "resizeImage b file = Fulfilled out"
  shows "\<exists>dims. img_load b file = Some dims \<and> onload b file dims = Inr (Some out)"
  using assms by (auto simp: resizeImage_def split: option.splits sum.splits)

text \<open>
  Claim C7. Whenever the promise of \<^verbatim>\<open>resizeImage\<close> resolves, the resolved file has
  the name and the media type of the file that was passed in.
\<close>

theorem resizeImage_same_name_and_type:
  assumes "resizeImage b file = Fulfilled out"
  shows "file_name out = file_name file \<and> file_type out = file_type file"
proof -
  from assms obtain dims where "onload b file dims = Inr (Some out)"
    using resizeImage_Fulfilled by blast
  then show ?thesis
    by (rule onload_name_type)
qed

lemma resizeImage_png:
  "resizeImage png_browser cat_file =
     Fulfilled \<lparr>file_bytes = [7, 7], file_name = ''cat.png'', file_type = ''image/png''\<rparr>"
  by (simp add: resizeImage_def onload_def png_browser_def cat_file_def new_File_def)

theorem resizeImage_same_name_and_type_witness:
  "resizeImage png_browser cat_file =
     Fulfilled \<lparr>file_bytes = [7, 7], file_name = ''cat.png'', file_type = ''image/png''\<rparr>
   \<and> file_name \<lparr>file_bytes = [7, 7], file_name = ''cat.png'', file_type = ''image/png''\<rparr>
       = file_name cat_file
   \<and> file_type \<lparr>file_bytes = [7, 7], file_name = ''cat.png'', file_type = ''image/png''\<rparr>
       = file_type cat_file"
  using resizeImage_same_name_and_type [OF resizeImage_png] resizeImage_png
  by simp



text \<open>
  Claim C8. The promise of \<^verbatim>\<open>resizeImage\<close> is never rejected: for every browser and
  every file it either resolves with a prepared file or stays pending, and it stays
  pending whenever the picture does not load.
\<close>

theorem resizeImage_never_rejects:
  "(\<forall>e. resizeImage b file \<noteq> Rejected e)
   \<and> (resizeImage b file = Pending \<or> (\<exists>out. resizeImage b file = Fulfilled out))
   \<and> (img_load b file = None \<longrightarrow> resizeImage b file = Pending)"
proof (intro conjI allI impI)
  fix e
  show "resizeImage b file \<noteq> Rejected e"
    using resizeImage_cases [of b "file"] by auto
next
  show "resizeImage b file = Pending \<or> (\<exists>out. resizeImage b file = Fulfilled out)"
    by (rule resizeImage_cases)
next
  assume "img_load b file = None"
  then show "resizeImage b file = Pending"
    by (simp add: resizeImage_def)
qed

theorem resizeImage_never_rejects_witness:
  "img_load broken_browser cat_file = None \<and> resizeImage broken_browser cat_file = Pending"
  using resizeImage_never_rejects [of broken_browser cat_file]
  by (simp add: broken_browser_def)

subsection \<open>Runs of \<^verbatim>\<open>submitForm\<close>\<close>

lemma submitForm_invalid:
  assumes "image s = None \<or> question s = []"
  shows "submitForm fetch s = invalid_run s"
  using assms by (auto simp: submitForm_def split: option.splits)

lemma submitForm_valid_pending:
  assumes "image s = Some img" and "question s \<noteq> []"
    and "try_block (fetch (ask_request img (question s))) = None"
  shows "submitForm fetch s =
     \<lparr>effects = [Fetch (ask_request img (question s))],
      at_await = Some (s\<lparr>isLoading := True\<rparr>), final = None\<rparr>"
  using assms by (simp add: submitForm_def Let_def)

lemma submitForm_valid_settled:
  assumes "image s = Some img" and "question s \<noteq> []"
    and "try_block (fetch (ask_request img (question s))) = Some outcome"
  shows "submitForm fetch s =
     \<lparr>effects = Fetch (ask_request img (question s))
                  # snd (submit_settle outcome (s\<lparr>isLoading := True\<rparr>)),
      at_await = Some (s\<lparr>isLoading := True\<rparr>),
      final = Some (fst (submit_settle outcome (s\<lparr>isLoading := True\<rparr>)))\<rparr>"
  using assms by (simp add: submitForm_def Let_def split: prod.splits)

lemma fst_submit_settle:
  "fst (submit_settle outcome s) =
     s\<lparr>description := (case outcome of Inl e \<Rightarrow> Json (JStr error_message) | Inr v \<Rightarrow> v),
       isLoading := False\<rparr>"
  by (simp add: submit_settle_def split: sum.splits)

lemma snd_submit_settle:
  "snd (submit_settle outcome s) =
     (case outcome of Inl e \<Rightarrow> [ConsoleError ''Error submitting form:'' e] | Inr v \<Rightarrow> [])"
  by (simp add: submit_settle_def split: sum.splits)

lemma try_block_failure:
  assumes "r = Rejected e
     \<or> (\<exists>resp. r = Fulfilled resp
          \<and> (resp_json resp = Rejected e \<or> (resp_json resp = Fulfilled JNull \<and> e = TypeError)))"
  shows "try_block r = Some (Inl e)"
  using assms by (auto simp: try_block_def)

lemma try_block_status:
  "try_block (Fulfilled (resp\<lparr>resp_status := n\<rparr>)) = try_block (Fulfilled resp)"
  by (simp add: try_block_def)

text \<open>
  Claim C4. With no image or with an empty question, \<^verbatim>\<open>submitForm\<close> shows the
  validation message in an alert and does nothing else: no request is issued, the
  function never suspends, and it returns in the state in which it was called.
\<close>

theorem submitForm_validation_failure:
  assumes "image s = None \<or> question s = []"
  shows "submitForm fetch s =
     \<lparr>effects = [Alert validation_message], at_await = None, final = Some s\<rparr>"
  using assms by (simp only: submitForm_invalid invalid_run_def)

theorem submitForm_validation_failure_witness:
  "(image no_question_state = None \<or> question no_question_state = [])
   \<and> image no_question_state = Some cat_file
   \<and> submitForm cat_fetch no_question_state =
     \<lparr>effects = [Alert validation_message], at_await = None, final = Some no_question_state\<rparr>"
  using submitForm_validation_failure [of no_question_state cat_fetch]
  by (simp add: no_question_state_def ready_state_def)

text \<open>
  Claim C5. A run that passes validation suspends with the loading flag set, and in every
  state in which such a run returns, after an answer as well as after a failure, the flag
  is cleared. The run returns exactly when the awaited promises settle.
\<close>

theorem submitForm_loading_flag:
  assumes "image s = Some img" and "question s \<noteq> []"
  shows "(\<exists>s1. at_await (submitForm fetch s) = Some s1 \<and> isLoading s1)
     \<and> (\<forall>s'. final (submitForm fetch s) = Some s' \<longrightarrow> \<not> isLoading s')
     \<and> (final (submitForm fetch s) = None
          \<longleftrightarrow> try_block (fetch (ask_request img (question s))) = None)"
proof (cases "try_block (fetch (ask_request img (question s)))")
  case None
  with assms show ?thesis
    by (simp add: submitForm_valid_pending)
next
  case (Some outcome)
  with assms show ?thesis
    by (simp add: submitForm_valid_settled fst_submit_settle)
qed

theorem submitForm_loading_flag_witness:
  "image ready_state = Some cat_file \<and> question ready_state \<noteq> []
   \<and> try_block (offline_fetch (ask_request cat_file (question ready_state))) \<noteq> None
   \<and> map_option isLoading (at_await (submitForm offline_fetch ready_state)) = Some True
   \<and> map_option isLoading (final (submitForm offline_fetch ready_state)) = Some False"
  using submitForm_loading_flag [of ready_state cat_file offline_fetch]
  by (auto simp: ready_state_def offline_fetch_def try_block_def)

text \<open>
  Claim C6. With an image and a non-empty question, when the body of the response parses
  to an object with a \<open>description\<close> member, the stored answer is exactly the value of
  that member.
\<close>

theorem submitForm_answer:
  assumes "image s = Some img" and "question s \<noteq> []"
    and "fetch (ask_request img (question s)) = Fulfilled resp"
    and "resp_json resp = Fulfilled (JObj members)"
    and "map_of (rev members) ''description'' = Some v"
  shows "final (submitForm fetch s) = Some (s\<lparr>description := Json v, isLoading := False\<rparr>)"
proof -
  have "try_block (fetch (ask_request img (question s))) = Some (Inr (Json v))"
    using assms(3-5) by (simp add: try_block_def)
  with assms(1,2) show ?thesis
    by (simp add: submitForm_valid_settled fst_submit_settle)
qed

theorem submitForm_answer_witness:
  "image ready_state = Some cat_file \<and> question ready_state \<noteq> []
   \<and> cat_fetch (ask_request cat_file (question ready_state)) =
       Fulfilled \<lparr>resp_status = 200,
         resp_json = Fulfilled (JObj [(''description'', JStr ''a cat'')])\<rparr>
   \<and> final (submitForm cat_fetch ready_state) =
       Some (ready_state\<lparr>description := Json (JStr ''a cat''), isLoading := False\<rparr>)"
  using submitForm_answer [of ready_state cat_file cat_fetch
      "\<lparr>resp_status = 200, resp_json = Fulfilled (JObj [(''description'', JStr ''a cat'')])\<rparr>"
      "[(''description'', JStr ''a cat'')]" "JStr ''a cat''"]
  by (simp add: ready_state_def cat_fetch_def)

text \<open>
  Claim C3 says that every failure, a non-success status included, ends with the fixed
  error string as the answer. The status is never read: a response with status 500 whose
  body parses to an object is handled like any other, and the answer becomes the
  \<open>description\<close> member of that object, here \<^verbatim>\<open>undefined\<close>.
\<close>

theorem submitForm_status_ignored_counterexample:
  "failing_fetch (ask_request cat_file ''what is this?'') =
     Fulfilled \<lparr>resp_status = 500,
       resp_json = Fulfilled (JObj [(''error'', JStr ''model unavailable'')])\<rparr>
   \<and> final (submitForm failing_fetch ready_state) =
       Some (ready_state\<lparr>description := Undefined\<rparr>)
   \<and> description (ready_state\<lparr>description := Undefined\<rparr>) \<noteq> Json (JStr error_message)"
  by (simp add: submitForm_def failing_fetch_def ready_state_def try_block_def
      submit_settle_def Let_def)

text \<open>
  Claim C3, amended. When \<^verbatim>\<open>fetch\<close> rejects, when reading the body as JSON rejects,
  or when the body is the JSON value \<^verbatim>\<open>null\<close>, the run issues exactly one request,
  logs the error, stores the fixed error string as the answer and clears the loading flag.
\<close>

theorem submitForm_failure:
  assumes "image s = Some img" and "question s \<noteq> []"
    and "fetch (ask_request img (question s)) = Rejected e
     \<or> (\<exists>resp. fetch (ask_request img (question s)) = Fulfilled resp
          \<and> (resp_json resp = Rejected e \<or> (resp_json resp = Fulfilled JNull \<and> e = TypeError)))"
  shows "submitForm fetch s =
     \<lparr>effects = [Fetch (ask_request img (question s)), ConsoleError ''Error submitting form:'' e],
      at_await = Some (s\<lparr>isLoading := True\<rparr>),
      final = Some (s\<lparr>description := Json (JStr error_message), isLoading := False\<rparr>)\<rparr>"
proof -
  have "try_block (fetch (ask_request img (question s))) = Some (Inl e)"
    using assms(3) by (rule try_block_failure)
  with assms(1,2) show ?thesis
    by (simp add: submitForm_valid_settled fst_submit_settle snd_submit_settle)
qed

theorem submitForm_failure_witness:
  "image ready_state = Some cat_file \<and> question ready_state \<noteq> []
   \<and> offline_fetch (ask_request cat_file (question ready_state)) = Rejected NetworkError
   \<and> submitForm offline_fetch ready_state =
     \<lparr>effects = [Fetch (ask_request cat_file (question ready_state)),
                  ConsoleError ''Error submitting form:'' NetworkError],
      at_await = Some (ready_state\<lparr>isLoading := True\<rparr>),
      final = Some (ready_state\<lparr>description := Json (JStr error_message), isLoading := False\<rparr>)\<rparr>"
  using submitForm_failure [of ready_state cat_file offline_fetch NetworkError]
  by (simp add: ready_state_def offline_fetch_def)

text \<open>
  Claim C10. In the state in which a run suspends and in the state in which it returns,
  on every path, everything but the answer and the loading flag is as it was at the call;
  in particular the image, the preview URL and the question are unchanged.
\<close>

theorem submitForm_frame:
  "\<forall>s'. at_await (submitForm fetch s) = Some s' \<or> final (submitForm fetch s) = Some s' \<longrightarrow>
     s' = s\<lparr>description := description s', isLoading := isLoading s'\<rparr>
     \<and> image s' = image s \<and> imageUrl s' = imageUrl s \<and> question s' = question s"
proof (cases "image s = None \<or> question s = []")
  case True
  then show ?thesis
    by (auto simp: submitForm_invalid invalid_run_def)
next
  case False
  then obtain img where valid: "image s = Some img" "question s \<noteq> []"
    by auto
  show ?thesis
  proof (cases "try_block (fetch (ask_request img (question s)))")
    case None
    with valid show ?thesis
      by (auto simp: submitForm_valid_pending)
  next
    case (Some outcome)
    with valid show ?thesis
      by (auto simp: submitForm_valid_settled fst_submit_settle)
  qed
qed

theorem submitForm_frame_witness:
  "final (submitForm cat_fetch ready_state) =
     Some (ready_state\<lparr>description := Json (JStr ''a cat'')\<rparr>)
   \<and> image (ready_state\<lparr>description := Json (JStr ''a cat'')\<rparr>) = image ready_state
   \<and> imageUrl (ready_state\<lparr>description := Json (JStr ''a cat'')\<rparr>) = imageUrl ready_state
   \<and> question (ready_state\<lparr>description := Json (JStr ''a cat'')\<rparr>) = question ready_state"
  using submitForm_frame [of cat_fetch ready_state]
  by (simp add: submitForm_def cat_fetch_def ready_state_def try_block_def
      submit_settle_def Let_def)

end
